theory Spec2Isabelle
  imports Main "HOL-Library.AList"
begin

section \<open>Values and errors\<close>

text \<open>
  Values decoded from JSON, as Python holds them after \<open>json.load\<close> or \<open>response.json()\<close>:
  \<open>None\<close>, booleans, integers, strings, lists and dictionaries with string keys.
  Strings are byte strings; the case conversions below act on ASCII letters only.
\<close>

datatype json =
  JNull
| JBool bool
| JNum int
| JStr string
| JArr "json list"
| JObj "(string \<times> json) list"

text \<open>The exceptions the modelled code can raise.\<close>

datatype error =
  TypeError
| AttributeError
| KeyError
| FileNotFoundError
| JSONDecodeError
| OSError
| OverflowError
| ParserError
| UnboundLocalError
| RequestException

section \<open>Ledger store (utils/file\_io.py)\<close>

text \<open>
  A ledger entry is the dictionary written by \<open>RecordingFiles.to_json\<close>. The ledger is a
  dictionary from meeting identifier to entry, kept in insertion order as Python keeps it
  (\<open>map_of\<close> looks a key up, \<open>AList.update\<close> is \<open>data[k] = v\<close>: in place for a key already
  there, at the end for a new one). A JSON object has string keys only.
\<close>

type_synonym entry = "string \<rightharpoonup> json"
type_synonym ledger = "(string \<times> entry) list"

text \<open>
  What the ledger path holds on disk. \<open>Document d\<close> is the complete text \<open>json.dump\<close> wrote
  for \<open>d\<close> (and \<open>json.load\<close> reads \<open>d\<close> back from it); \<open>Truncated d n\<close> is only the first
  \<open>n\<close> chunks of that text, left behind by a write that stopped early; \<open>Garbage\<close> is any
  other text that \<open>json.load\<close> rejects.
\<close>

datatype ledger_file =
  Absent
| Garbage
| Document ledger
| Truncated ledger nat

text \<open>
  \<open>open(file_path, 'r')\<close> followed by \<open>json.load\<close>. A proper prefix of the text of a JSON
  object is not a JSON document, so a truncated file is rejected.
\<close>

fun json_load :: "ledger_file \<Rightarrow> error + ledger" where
  "json_load Absent = Inl FileNotFoundError"
| "json_load Garbage = Inl JSONDecodeError"
| "json_load (Document d) = Inr d"
| "json_load (Truncated d n) = Inl JSONDecodeError"

text \<open>
  How a write to the ledger path goes: to the end; or \<open>open\<close> itself is refused; or an
  I/O error stops \<open>json.dump\<close> after the given number of chunks reached the file
  (fewer than the whole text).
\<close>

datatype write_outcome = WriteOk | OpenFails | WriteFails nat

text \<open>
  \<open>open(file_path, 'w')\<close> followed by \<open>json.dump\<close>: opening for writing truncates the file in
  place, then the text is written chunk by chunk into that same file. The first argument is
  the file as it was.
\<close>

fun json_dump :: "ledger_file \<Rightarrow> ledger \<Rightarrow> write_outcome \<Rightarrow> (error + unit) \<times> ledger_file" where
  "json_dump file d WriteOk = (Inr (), Document d)"
| "json_dump file d OpenFails = (Inl OSError, file)"
| "json_dump file d (WriteFails n) = (Inl OSError, Truncated d n)"

text \<open>Text of a decimal integer, as \<open>str\<close> and \<open>json.dump\<close> print it.\<close>

definition digit :: "nat \<Rightarrow> char" where
  "digit n = ''0123456789'' ! (n mod 10)"

fun decimal_nat :: "nat \<Rightarrow> string" where
  "decimal_nat n = (if n < 10 then [digit n] else decimal_nat (n div 10) @ [digit n])"

declare decimal_nat.simps [simp del]

definition decimal :: "int \<Rightarrow> string" where
  "decimal i = (if i < 0 then CHR ''-'' # decimal_nat (nat (- i)) else decimal_nat (nat i))"

text \<open>
  A dictionary key must be hashable: lists and dictionaries are not. \<open>json.dump\<close> writes a
  key that is not a string as text.
\<close>

fun hashable :: "json \<Rightarrow> bool" where
  "hashable (JArr xs) = False"
| "hashable (JObj kvs) = False"
| "hashable v = True"

fun key_text :: "json \<Rightarrow> string" where
  "key_text (JStr s) = s"
| "key_text JNull = ''null''"
| "key_text (JBool b) = (if b then ''true'' else ''false'')"
| "key_text (JNum i) = decimal i"
| "key_text v = []"

text \<open>
  The dictionary step of \<open>update_meeting_json_file\<close>:
  \<^verbatim>\<open>
    if meeting_id in data:
        data[meeting_id].update(meeting_json)
    else:
        data[meeting_id] = meeting_json
  \<close>
  The keys of \<open>data\<close> are strings, so only a string identifier can be found in it; any
  other hashable identifier is stored anew and written under its text.
\<close>

definition merge_entry :: "ledger \<Rightarrow> json \<Rightarrow> entry \<Rightarrow> ledger" where
  "merge_entry data meeting_id meeting_json =
     (case meeting_id of
        JStr s \<Rightarrow>
          (case map_of data s of
             Some old \<Rightarrow> AList.update s (old ++ meeting_json) data
           | None \<Rightarrow> AList.update s meeting_json data)
      | _ \<Rightarrow> AList.update (key_text meeting_id) meeting_json data)"

text \<open>
  \<open>update_meeting_json_file(file_path, meeting_id, meeting_json)\<close>: the file at the path
  goes in and comes out, with the exception raised, if any.
\<close>

definition update_meeting_json_file ::
  "ledger_file \<Rightarrow> json \<Rightarrow> entry \<Rightarrow> write_outcome \<Rightarrow> (error + unit) \<times> ledger_file" where
  "update_meeting_json_file file meeting_id meeting_json w =
     (let data = (case json_load file of Inl e \<Rightarrow> [] | Inr d \<Rightarrow> d)
      in if \<not> hashable meeting_id then (Inl TypeError, file)
         else json_dump file (merge_entry data meeting_id meeting_json) w)"

section \<open>Strings\<close>

text \<open>\<open>str.lower\<close>, \<open>str.replace\<close> of one character by another, and \<open>str.title\<close>.\<close>

definition is_upper :: "char \<Rightarrow> bool" where
  "is_upper c \<longleftrightarrow> c \<in> set ''ABCDEFGHIJKLMNOPQRSTUVWXYZ''"

definition is_lower :: "char \<Rightarrow> bool" where
  "is_lower c \<longleftrightarrow> c \<in> set ''abcdefghijklmnopqrstuvwxyz''"

definition lower_char :: "char \<Rightarrow> char" where
  "lower_char c =
     (case map_of (zip ''ABCDEFGHIJKLMNOPQRSTUVWXYZ'' ''abcdefghijklmnopqrstuvwxyz'') c of
        Some l \<Rightarrow> l | None \<Rightarrow> c)"

definition upper_char :: "char \<Rightarrow> char" where
  "upper_char c =
     (case map_of (zip ''abcdefghijklmnopqrstuvwxyz'' ''ABCDEFGHIJKLMNOPQRSTUVWXYZ'') c of
        Some u \<Rightarrow> u | None \<Rightarrow> c)"

definition lower :: "string \<Rightarrow> string" where
  "lower s = map lower_char s"

definition replace_char :: "char \<Rightarrow> char \<Rightarrow> string \<Rightarrow> string" where
  "replace_char a b s = map (\<lambda>c. if c = a then b else c) s"

text \<open>
  \<open>str.title\<close>: a letter that follows a letter is lower-cased, any other letter is
  upper-cased. The flag says whether the previous character was a letter.
\<close>

fun title_from :: "bool \<Rightarrow> string \<Rightarrow> string" where
  "title_from prev [] = []"
| "title_from prev (c # cs) =
     (if is_lower c then (if prev then c else upper_char c) # title_from True cs
      else if is_upper c then (if prev then lower_char c else c) # title_from True cs
      else c # title_from False cs)"

definition title :: "string \<Rightarrow> string" where
  "title s = title_from False s"

section \<open>Provider client (utils/zoom.py)\<close>

subsection \<open>Date windows\<close>

text \<open>
  A \<open>datetime\<close> is counted in microseconds since 0001-01-01T00:00:00, a \<open>timedelta\<close> in
  microseconds. Python's datetimes end at 9999-12-31T23:59:59.999999 (day 3652059 of the
  calendar); adding a \<open>timedelta\<close> that leaves the range raises \<open>OverflowError\<close>.
\<close>

definition days :: "int \<Rightarrow> int" where
  "days n = n * 86400000000"

definition datetime_max :: int where
  "datetime_max = days 3652059 - 1"

definition datetime_add :: "int \<Rightarrow> int \<Rightarrow> error + int" where
  "datetime_add t d = (if 0 \<le> t + d \<and> t + d \<le> datetime_max then Inr (t + d) else Inl OverflowError)"

text \<open>
  \<^verbatim>\<open>
    def per_delta(self, start, end, delta):
        curr = start
        while curr < end:
            yield curr, min(curr + delta, end)
            curr += delta
  \<close>
  The generator is read as the list of the pairs it yields together with the way it stops:
  \<open>None\<close> when the loop ends, \<open>Some e\<close> when it raises \<open>e\<close> after the pairs before. With a
  \<open>delta\<close> that is not positive the loop never ends, and the function has no value.
\<close>

partial_function (option) per_delta ::
  "int \<Rightarrow> int \<Rightarrow> int \<Rightarrow> ((int \<times> int) list \<times> error option) option" where
  "per_delta cur end' delta =
     (if cur < end' then
        (case datetime_add cur delta of
           Inl e \<Rightarrow> Some ([], Some e)
         | Inr nxt \<Rightarrow>
             Option.bind (per_delta nxt end' delta)
               (\<lambda>(ws, r). Some ((cur, min nxt end') # ws, r)))
      else Some ([], None))"

subsection \<open>Listing\<close>

text \<open>
  What one call of \<open>get_recordings\<close> does: a connect or read timeout, another exception,
  or the decoded JSON object of the response.
\<close>

datatype attempt =
  ConnectTimeout
| ReadTimeout
| Raises error
| Body "(string \<times> json) list"

text \<open>The provider as seen by one user's listing: window and attempt number give the outcome.\<close>

type_synonym provider = "string \<Rightarrow> int \<times> int \<Rightarrow> nat \<Rightarrow> attempt"

definition max_retries :: nat where
  "max_retries = 3"

text \<open>
  The retry loop \<open>for _ in range(max_retries)\<close> of one window; \<open>None\<close> is its \<open>else\<close> clause,
  reached when no attempt got through.
\<close>

fun request_window :: "(nat \<Rightarrow> attempt) \<Rightarrow> nat \<Rightarrow> nat \<Rightarrow> (error + (string \<times> json) list) option" where
  "request_window call i 0 = None"
| "request_window call i (Suc n) =
     (case call i of
        ConnectTimeout \<Rightarrow> request_window call (Suc i) n
      | ReadTimeout \<Rightarrow> request_window call (Suc i) n
      | Raises e \<Rightarrow> Some (Inl e)
      | Body b \<Rightarrow> Some (Inr b))"

text \<open>Iterating a decoded value, as \<open>list.extend\<close> and \<open>for\<close> do.\<close>

fun iterate :: "json \<Rightarrow> error + json list" where
  "iterate (JArr xs) = Inr xs"
| "iterate (JStr s) = Inr (map (\<lambda>c. JStr [c]) s)"
| "iterate (JObj kvs) = Inr (map (\<lambda>kv. JStr (fst kv)) kvs)"
| "iterate v = Inl TypeError"

text \<open>
  The body of \<open>list_recordings\<close> over the windows the generator yields, \<open>stop\<close> being the
  way the generator ends. Running out of attempts for a window is \<open>return []\<close>.
\<close>

fun gather ::
  "(int \<times> int \<Rightarrow> nat \<Rightarrow> attempt) \<Rightarrow> (int \<times> int) list \<Rightarrow> error option \<Rightarrow> json list \<Rightarrow> error + json list" where
  "gather get_recordings [] stop recordings =
     (case stop of Some e \<Rightarrow> Inl e | None \<Rightarrow> Inr recordings)"
| "gather get_recordings (w # ws) stop recordings =
     (case request_window (get_recordings w) 0 max_retries of
        None \<Rightarrow> Inr []
      | Some (Inl e) \<Rightarrow> Inl e
      | Some (Inr recordings_data) \<Rightarrow>
          (case map_of recordings_data ''meetings'' of
             Some ms \<Rightarrow>
               (case iterate ms of
                  Inl e \<Rightarrow> Inl e
                | Inr xs \<Rightarrow> gather get_recordings ws stop (recordings @ xs))
           | None \<Rightarrow> gather get_recordings ws stop recordings))"

definition list_recordings ::
  "provider \<Rightarrow> string \<Rightarrow> int \<Rightarrow> int \<Rightarrow> (error + json list) option" where
  "list_recordings zoom email start_date end_date =
     map_option (\<lambda>(ws, stop). gather (zoom email) ws stop [])
       (per_delta start_date end_date (days 30))"

subsection \<open>Recording records\<close>

text \<open>\<open>dict.get(key, default)\<close> on a decoded object.\<close>

definition dict_get :: "(string \<times> json) list \<Rightarrow> string \<Rightarrow> json \<Rightarrow> json" where
  "dict_get kvs k dflt = (case map_of kvs k of Some v \<Rightarrow> v | None \<Rightarrow> dflt)"

record RecordingFiles =
  download_url :: json
  file_extension :: string
  file_id :: json
  status :: json
  file_type :: json

text \<open>
  \<open>RecordingFiles.__init__(file_json)\<close>. \<open>.get\<close> exists on a dictionary only, and \<open>.lower\<close> on
  a string only.
\<close>

definition RecordingFiles_init :: "json \<Rightarrow> error + RecordingFiles" where
  "RecordingFiles_init file_json =
     (case file_json of
        JObj kvs \<Rightarrow>
          (case dict_get kvs ''file_extension'' JNull of
             JStr ext \<Rightarrow>
               Inr \<lparr> download_url = dict_get kvs ''download_url'' JNull,
                     file_extension = lower ext,
                     file_id = dict_get kvs ''id'' JNull,
                     status = dict_get kvs ''_status'' (JStr ''pending''),
                     file_type = dict_get kvs ''recording_type'' JNull \<rparr>
           | _ \<Rightarrow> Inl AttributeError)
      | _ \<Rightarrow> Inl AttributeError)"

definition to_json :: "RecordingFiles \<Rightarrow> entry" where
  "to_json f =
     [''download_url'' \<mapsto> download_url f,
      ''file_extension'' \<mapsto> JStr (file_extension f),
      ''id'' \<mapsto> file_id f,
      ''_status'' \<mapsto> status f,
      ''type'' \<mapsto> file_type f]"

record ZoomRecording =
  account_id :: json
  files :: "RecordingFiles list"
  rec_id :: json
  password :: json
  rec_size :: json
  start_time :: json
  topic :: json
  user :: string

text \<open>The loop \<open>for file in ...: self.append_recording_file(file)\<close>.\<close>

fun append_recording_files :: "RecordingFiles list \<Rightarrow> json list \<Rightarrow> error + RecordingFiles list" where
  "append_recording_files fs [] = Inr fs"
| "append_recording_files fs (file_json # rest) =
     (case RecordingFiles_init file_json of
        Inl e \<Rightarrow> Inl e
      | Inr f \<Rightarrow> append_recording_files (fs @ [f]) rest)"

text \<open>
  A call \<open>ZoomRecording(...)\<close> with its positional arguments. \<open>__init__(self, meeting_json,
  user)\<close> has no default for either: a call with another number of arguments raises
  \<open>TypeError\<close> before the body runs.
\<close>

definition ZoomRecording_init :: "json \<Rightarrow> string \<Rightarrow> error + ZoomRecording" where
  "ZoomRecording_init meeting_json usr =
     (case meeting_json of
        JObj kvs \<Rightarrow>
          (case iterate (dict_get kvs ''recording_files'' (JArr [])) of
             Inl e \<Rightarrow> Inl e
           | Inr fjs \<Rightarrow>
               (case append_recording_files [] fjs of
                  Inl e \<Rightarrow> Inl e
                | Inr fs \<Rightarrow>
                    Inr \<lparr> account_id = dict_get kvs ''account_id'' JNull,
                          files = fs,
                          rec_id = dict_get kvs ''uuid'' JNull,
                          password = dict_get kvs ''recording_play_passcode'' JNull,
                          rec_size = dict_get kvs ''total_size'' JNull,
                          start_time = dict_get kvs ''start_time'' JNull,
                          topic = dict_get kvs ''topic'' JNull,
                          user = usr \<rparr>))
      | _ \<Rightarrow> Inl AttributeError)"

datatype arg = ArgJson json | ArgStr string

fun ZoomRecording_call :: "arg list \<Rightarrow> error + ZoomRecording" where
  "ZoomRecording_call [ArgJson meeting_json, ArgStr usr] = ZoomRecording_init meeting_json usr"
| "ZoomRecording_call args = Inl TypeError"

section \<open>Backup run (zoom-recording-cloud-backup.py)\<close>

subsection \<open>Configuration and libraries\<close>

text \<open>
  The filename and folder templates, as \<open>str.format\<close> reads them: literal text
  and replacement fields. \<open>Field\<close> is one of the five placeholders the configuration
  recognises, written alone between the braces. \<open>Other f\<close> is any other replacement field,
  \<open>f\<close> being the text between its braces: another local variable (\<open>year\<close>,
  \<open>recording_type\<close>), an attribute or an item (\<open>recording.topic\<close>,
  \<open>params[recording_id]\<close>), a field with a conversion or a format specification, or a name
  that is no local variable at all.
\<close>

datatype placeholder = Meeting_time | Topic | Rec_type | Recording_id | File_extension

datatype part = Text string | Field placeholder | Other string

text \<open>The current date (year, month, day), as \<open>datetime.now()\<close> gives it when it is asked.\<close>

type_synonym clock = "nat \<times> nat \<times> nat"

record config =
  MEETING_FILENAME :: "part list"
  MEETING_FOLDER :: "part list"
  DOWNLOAD_DIRECTORY :: string
  SHAREPOINT_BASE_DIR_PATH :: string

definition default_MEETING_FILENAME :: "part list" where
  "default_MEETING_FILENAME =
     [Field Meeting_time, Text '' - '', Field Topic, Text '' - '', Field Rec_type, Text '' - '',
      Field Recording_id, Text ''.'', Field File_extension]"

definition default_MEETING_FOLDER :: "part list" where
  "default_MEETING_FOLDER = [Field Topic, Text '' - '', Field Meeting_time]"

text \<open>
  Library functions the run calls: \<open>pathvalidate\<close>'s two sanitizers; \<open>local_date\<close> for
  \<open>parser.parse(s).replace(tzinfo=timezone.utc).astimezone(MEETING_TIMEZONE)\<close>, giving year,
  month and day of the local time or the parser's exception (the parser takes the fields
  the string leaves out from the current date, hence the clock); \<open>repr\<close> for the text Python
  prints for a list or a dictionary; \<open>other_field\<close> for what \<open>str.format(**locals())\<close> makes
  of a replacement field that is not one of the five placeholders, given the clock, the
  text of the field and the four entries of \<open>params\<close> from which every local variable is
  computed: the text substituted, or the exception raised (\<open>KeyError\<close> for a name that is
  no local variable).
\<close>

record libs =
  sanitize_filepath :: "string \<Rightarrow> string"
  sanitize_filename :: "string \<Rightarrow> string"
  local_date :: "clock \<Rightarrow> string \<Rightarrow> error + nat \<times> nat \<times> nat"
  repr :: "json \<Rightarrow> string"
  other_field :: "clock \<Rightarrow> string \<Rightarrow> string \<Rightarrow> ZoomRecording \<Rightarrow> json \<Rightarrow> json \<Rightarrow> error + string"

text \<open>\<open>str(v)\<close>, as \<open>str.format\<close> applies it to a substituted value.\<close>

definition py_str :: "libs \<Rightarrow> json \<Rightarrow> string" where
  "py_str l v =
     (case v of
        JNull \<Rightarrow> ''None''
      | JBool b \<Rightarrow> (if b then ''True'' else ''False'')
      | JNum i \<Rightarrow> decimal i
      | JStr s \<Rightarrow> s
      | _ \<Rightarrow> repr l v)"

text \<open>\<open>strftime\<close> of a number on a fixed width (\<open>%Y\<close> on four digits, \<open>%m\<close> and \<open>%d\<close> on two).\<close>

definition zero_pad :: "nat \<Rightarrow> nat \<Rightarrow> string" where
  "zero_pad width n = replicate (width - length (decimal_nat n)) (CHR ''0'') @ decimal_nat n"

subsection \<open>Filename and folder\<close>

text \<open>The character class \<^verbatim>\<open>[<>:"/\\|?*\x00-\x1F]\<close>.\<close>

definition invalid_char :: "char \<Rightarrow> bool" where
  "invalid_char c \<longleftrightarrow>
     c \<in> set ''<>:/|?*'' \<or> c = CHR 0x22 \<or> c = CHR 0x5C \<or> of_char c < (32::nat)"

text \<open>
  \<open>template.format(**locals())\<close>: the fields are replaced from left to right, and the first
  exception ends the call.
\<close>

fun substitute ::
  "(placeholder \<Rightarrow> string) \<Rightarrow> (string \<Rightarrow> error + string) \<Rightarrow> part list \<Rightarrow> error + string" where
  "substitute vals other [] = Inr []"
| "substitute vals other (Text s # rest) =
     (case substitute vals other rest of Inl e \<Rightarrow> Inl e | Inr out \<Rightarrow> Inr (s @ out))"
| "substitute vals other (Field f # rest) =
     (case substitute vals other rest of Inl e \<Rightarrow> Inl e | Inr out \<Rightarrow> Inr (vals f @ out))"
| "substitute vals other (Other f # rest) =
     (case other f of
        Inl e \<Rightarrow> Inl e
      | Inr s \<Rightarrow> (case substitute vals other rest of Inl e \<Rightarrow> Inl e | Inr out \<Rightarrow> Inr (s @ out)))"

text \<open>
  \<open>format_filename(params)\<close>, the four entries of \<open>params\<close> being the last four arguments
  and \<open>today\<close> the clock at the call. The exceptions are those of \<open>regex.sub\<close> on a topic
  that is not a string, of \<open>.replace\<close> on a recording type that is not a string, of the date
  parser and of \<open>str.format\<close>.
\<close>

definition format_filename ::
  "config \<Rightarrow> libs \<Rightarrow> clock \<Rightarrow> string \<Rightarrow> ZoomRecording \<Rightarrow> json \<Rightarrow> json \<Rightarrow> error + string \<times> string" where
  "format_filename conf l today file_ext recording recording_id recording_type =
     (let file_extension' = lower file_ext in
      case topic recording of
        JStr t \<Rightarrow>
          (let topic' = replace_char (CHR '' '') (CHR ''_'') (filter (\<lambda>c. \<not> invalid_char c) t) in
           case recording_type of
             JStr rt \<Rightarrow>
               (let rec_type = title (replace_char (CHR ''_'') (CHR '' '') rt) in
                case start_time recording of
                  JStr st \<Rightarrow>
                    (case local_date l today st of
                       Inl e \<Rightarrow> Inl e
                     | Inr (y, m, d) \<Rightarrow>
                         (let meeting_time = zero_pad 4 y @ ''.'' @ zero_pad 2 m @ ''.'' @ zero_pad 2 d;
                              vals = (\<lambda>f. case f of
                                        Meeting_time \<Rightarrow> meeting_time
                                      | Topic \<Rightarrow> topic'
                                      | Rec_type \<Rightarrow> rec_type
                                      | Recording_id \<Rightarrow> py_str l recording_id
                                      | File_extension \<Rightarrow> file_extension');
                              other = (\<lambda>f. other_field l today f file_ext recording recording_id
                                              recording_type)
                          in case substitute vals other (MEETING_FILENAME conf) of
                               Inl e \<Rightarrow> Inl e
                             | Inr filename \<Rightarrow>
                                 (case substitute vals other (MEETING_FOLDER conf) of
                                    Inl e \<Rightarrow> Inl e
                                  | Inr folder \<Rightarrow> Inr (filename, folder))))
                | _ \<Rightarrow> Inl TypeError)
           | _ \<Rightarrow> Inl AttributeError)
      | _ \<Rightarrow> Inl TypeError)"

subsection \<open>Download and upload\<close>

text \<open>What a run does to the world outside its own variables, in order.\<close>

datatype event =
  Printed string
| DownloadCalled json json string
| Uploaded string string
| LedgerWritten json entry
| Removed string

text \<open>
  How the download of one file goes: an exception before the guarded block (\<open>os.makedirs\<close>,
  \<open>requests.get\<close>), an exception inside it (\<open>open\<close> refused, or the stream or the disk
  failing after the file was created), or the whole content written.
\<close>

datatype download_outcome =
  DownloadRaises error
| OpenRefused
| StreamBreaks
| DownloadCompletes

text \<open>
  \<open>download_recording(download_url, email, filename, folder_name)\<close> on the set of staged
  files: the value returned or the exception raised, and the staged files afterwards. The
  guarded block turns every exception into \<open>False\<close>.
\<close>

fun download_recording :: "download_outcome \<Rightarrow> string \<Rightarrow> string set \<Rightarrow> (error + bool) \<times> string set" where
  "download_recording (DownloadRaises e) full_filename staged = (Inl e, staged)"
| "download_recording OpenRefused full_filename staged = (Inr False, staged)"
| "download_recording StreamBreaks full_filename staged = (Inr False, insert full_filename staged)"
| "download_recording DownloadCompletes full_filename staged = (Inr True, insert full_filename staged)"

text \<open>
  How the two remote steps of an upload go. \<open>APIError\<close> is the exception the handlers of
  \<open>upload_large_file\<close> catch, with its response status code; \<open>SessionRaises\<close> and
  \<open>UploadRaises\<close> carry any other exception.
\<close>

datatype session_outcome = SessionCreated | SessionAPIError | SessionRaises error

datatype upload_outcome = UploadCompletes | UploadAPIError nat | UploadRaises error

text \<open>
  The chunk size handed to \<open>LargeFileUploadTask\<close>: 5 MiB, or one byte less than the file
  when the file is smaller.
\<close>

definition max_chunk_size :: "int \<Rightarrow> int" where
  "max_chunk_size total_length =
     (if total_length < 5 * 1024 * 1024 then total_length - 1 else 5 * 1024 * 1024)"

text \<open>
  \<open>upload_large_file(client, drive_id, local_file_path, remote_file_path)\<close>: the exception
  that leaves the function, if any, and what it did. An \<open>APIError\<close> of the session request
  is printed and execution goes on to read \<open>upload_session\<close>, which was never bound; an
  \<open>APIError\<close> of \<open>task.upload\<close> is printed with its status code and the function returns.
\<close>

definition upload_large_file ::
  "string set \<Rightarrow> session_outcome \<Rightarrow> upload_outcome \<Rightarrow> string \<Rightarrow> string \<Rightarrow> (error + unit) \<times> event list" where
  "upload_large_file staged session task local_file_path remote_file_path =
     (if local_file_path \<notin> staged then (Inl FileNotFoundError, [])
      else case session of
        SessionRaises e \<Rightarrow> (Inl e, [])
      | SessionAPIError \<Rightarrow> (Inl UnboundLocalError, [Printed ''Error creating upload session''])
      | SessionCreated \<Rightarrow>
          (case task of
             UploadCompletes \<Rightarrow>
               (Inr (), [Uploaded local_file_path remote_file_path, Printed ''Upload complete''])
           | UploadAPIError code \<Rightarrow> (Inr (), [Printed (''Error uploading: '' @ decimal_nat code)])
           | UploadRaises e \<Rightarrow> (Inl e, [])))"

subsection \<open>One file\<close>

text \<open>The variables and files a run changes.\<close>

record run =
  completed_meeting_record :: ledger_file
  staged_files :: "string set"
  completed_recordings :: nat
  failed_files :: nat
  total_recording_size :: int
  events :: "event list"

text \<open>
  What the outside world does while one file is processed: the date, the download, the
  two steps of the upload, and the first and second write of the ledger.
\<close>

record fate =
  today :: clock
  download :: download_outcome
  session :: session_outcome
  task :: upload_outcome
  first_write :: write_outcome
  second_write :: write_outcome

definition emit :: "event list \<Rightarrow> run \<Rightarrow> run" where
  "emit es r = r\<lparr>events := events r @ es\<rparr>"

text \<open>
  The call \<open>update_meeting_json_file(COMPLETED_MEETING_RECORD, recording.id, file.to_json())\<close>
  inside the run.
\<close>

definition write_ledger :: "write_outcome \<Rightarrow> ZoomRecording \<Rightarrow> RecordingFiles \<Rightarrow> run \<Rightarrow> (error + unit) \<times> run" where
  "write_ledger w recording file r =
     (case update_meeting_json_file (completed_meeting_record r) (rec_id recording) (to_json file) w of
        (res, file') \<Rightarrow>
          (res, emit [LedgerWritten (rec_id recording) (to_json file)]
                  (r\<lparr>completed_meeting_record := file'\<rparr>)))"

definition basename :: "string \<Rightarrow> string" where
  "basename path = rev (takeWhile (\<lambda>c. c \<noteq> CHR ''/'') (rev path))"

text \<open>\<open>total_recording_size += recording.size\<close>: an integer or a boolean can be added.\<close>

fun add_size :: "int \<Rightarrow> json \<Rightarrow> error + int" where
  "add_size acc (JNum n) = Inr (acc + n)"
| "add_size acc (JBool b) = Inr (acc + (if b then 1 else 0))"
| "add_size acc v = Inl TypeError"

text \<open>
  The result of processing one file: the exception that leaves \<open>main\<close>, if any, the file
  record and the run afterwards.
\<close>

type_synonym step = "error option \<times> RecordingFiles \<times> run"

text \<open>
  The block \<open>if file.status == "downloaded":\<close> (lines 502 to 526). \<open>w\<close> is the outcome of
  the ledger write it makes.
\<close>

definition upload_stage ::
  "config \<Rightarrow> bool \<Rightarrow> fate \<Rightarrow> write_outcome \<Rightarrow> ZoomRecording \<Rightarrow> string \<Rightarrow> string \<Rightarrow> RecordingFiles \<Rightarrow> run \<Rightarrow> step" where
  "upload_stage conf dry_run ft w recording folder_name local_file_path file r =
     (if status file \<noteq> JStr ''downloaded'' then
        (None, file, emit [Printed ''Finished processing file''] r)
      else
        (let remote_file_path =
               SHAREPOINT_BASE_DIR_PATH conf @ ''/'' @ user recording @ ''/'' @ folder_name @ ''/''
                 @ basename local_file_path @ '':'';
             (res, es) =
               (if dry_run then (Inr (), [Printed ''remote file path is''])
                else (case upload_large_file (staged_files r) (session ft) (task ft)
                             local_file_path remote_file_path of
                        (res, es) \<Rightarrow> (res, Printed ''    > Uploading to'' # es)));
             r1 = emit es r
         in case res of
              Inl e \<Rightarrow>
                (let file' = file\<lparr>status := JStr ''upload failed''\<rparr>;
                     r2 = (emit [Printed ''Exception'', Printed ''failed to upload file''] r1)
                            \<lparr>failed_files := failed_files r1 + 1\<rparr>
                 in case write_ledger w recording file' r2 of
                      (Inl e', r3) \<Rightarrow> (Some e', file', r3)
                    | (Inr u, r3) \<Rightarrow> (None, file', r3))
            | Inr u \<Rightarrow>
                (let file' = file\<lparr>status := JStr ''uploaded''\<rparr>;
                     r2 = r1\<lparr>completed_recordings := completed_recordings r1 + 1\<rparr>
                 in case add_size (total_recording_size r2) (rec_size recording) of
                      Inl e' \<Rightarrow> (Some e', file', r2)
                    | Inr acc \<Rightarrow>
                        (case write_ledger w recording file' (r2\<lparr>total_recording_size := acc\<rparr>) of
                           (Inl e', r3) \<Rightarrow> (Some e', file', r3)
                         | (Inr u', r3) \<Rightarrow>
                             (if local_file_path \<in> staged_files r3 then
                                (None, file',
                                 emit [Removed local_file_path, Printed ''Finished processing file'']
                                   (r3\<lparr>staged_files := staged_files r3 - {local_file_path}\<rparr>))
                              else (Some FileNotFoundError, file', r3))))))"

text \<open>
  The handler of the download block (lines 490 to 499): the file is marked, the ledger
  written, the failure counted, and the loop goes to the next file.
\<close>

definition download_failed :: "write_outcome \<Rightarrow> ZoomRecording \<Rightarrow> RecordingFiles \<Rightarrow> run \<Rightarrow> step" where
  "download_failed w recording file r =
     (let file' = file\<lparr>status := JStr ''download failed''\<rparr>
      in case write_ledger w recording file' (emit [Printed ''### Failed to process file''] r) of
           (Inl e', r1) \<Rightarrow> (Some e', file', r1)
         | (Inr u, r1) \<Rightarrow> (None, file', r1\<lparr>failed_files := failed_files r1 + 1\<rparr>))"

text \<open>The body of \<open>for file in recording.files:\<close> (lines 460 to 528).\<close>

definition process_file ::
  "config \<Rightarrow> libs \<Rightarrow> bool \<Rightarrow> fate \<Rightarrow> ZoomRecording \<Rightarrow> RecordingFiles \<Rightarrow> run \<Rightarrow> step" where
  "process_file conf l dry_run ft recording file r =
     (let r0 = emit [Printed ''processing file''] r in
      case format_filename conf l (today ft) (file_extension file) recording (file_id file)
             (file_type file) of
        Inl e \<Rightarrow> (Some e, file, r0)
      | Inr (filename, folder_name) \<Rightarrow>
          (let sanitized_download_dir =
                 sanitize_filepath l (DOWNLOAD_DIRECTORY conf @ ''/'' @ folder_name);
               sanitized_filename = sanitize_filename l filename;
               local_file_path = sanitized_download_dir @ ''/'' @ sanitized_filename
           in if status file = JStr ''pending'' then
                (let r1 = emit [Printed ''    > Downloading''] r0 in
                 if dry_run then
                   upload_stage conf dry_run ft (first_write ft) recording folder_name local_file_path file
                     (emit [Printed ''file.download_url, recording.user, filename, folder_name'',
                            Printed filename] r1)
                 else
                   (case download_recording (download ft) local_file_path (staged_files r1) of
                      (res, staged) \<Rightarrow>
                        (let r2 = emit [DownloadCalled (download_url file) (password recording) local_file_path]
                                    (r1\<lparr>staged_files := staged\<rparr>)
                         in case res of
                              Inl e \<Rightarrow> download_failed (first_write ft) recording file r2
                            | Inr False \<Rightarrow>
                                upload_stage conf dry_run ft (first_write ft) recording folder_name
                                  local_file_path file
                                  (emit [Printed ''### The video recording could not be downloaded''] r2)
                            | Inr True \<Rightarrow>
                                (let file' = file\<lparr>status := JStr ''downloaded''\<rparr>
                                 in case write_ledger (first_write ft) recording file' r2 of
                                      (Inl e, r3) \<Rightarrow> download_failed (second_write ft) recording file' r3
                                    | (Inr u, r3) \<Rightarrow>
                                        upload_stage conf dry_run ft (second_write ft) recording
                                          folder_name local_file_path file' r3))))
              else
                upload_stage conf dry_run ft (first_write ft) recording folder_name local_file_path file r0))"

subsection \<open>The run\<close>

text \<open>
  \<open>get_recordings_for_users(users, zoom_client)\<close>: every meeting listed for a user becomes a
  \<open>ZoomRecording(meeting, user)\<close>.
\<close>

fun build_recordings :: "string \<Rightarrow> json list \<Rightarrow> ZoomRecording list \<Rightarrow> error + ZoomRecording list" where
  "build_recordings usr [] recordings = Inr recordings"
| "build_recordings usr (meeting # rest) recordings =
     (case ZoomRecording_call [ArgJson meeting, ArgStr usr] of
        Inl e \<Rightarrow> Inl e
      | Inr meeting_info \<Rightarrow> build_recordings usr rest (recordings @ [meeting_info]))"

fun get_recordings_for_users ::
  "provider \<Rightarrow> int \<Rightarrow> int \<Rightarrow> string list \<Rightarrow> ZoomRecording list \<Rightarrow> (error + ZoomRecording list) option" where
  "get_recordings_for_users zoom start_date end_date [] recordings = Some (Inr recordings)"
| "get_recordings_for_users zoom start_date end_date (usr # rest) recordings =
     (case list_recordings zoom usr start_date end_date of
        None \<Rightarrow> None
      | Some (Inl e) \<Rightarrow> Some (Inl e)
      | Some (Inr recording_json) \<Rightarrow>
          (case build_recordings usr recording_json recordings of
             Inl e \<Rightarrow> Some (Inl e)
           | Inr recordings' \<Rightarrow> get_recordings_for_users zoom start_date end_date rest recordings'))"

text \<open>
  The fallback loop \<open>for meeting in data: recordings.append(ZoomRecording(meeting))\<close>:
  iterating the ledger gives its keys, and each call passes one argument.
\<close>

fun reconstruct :: "string list \<Rightarrow> ZoomRecording list \<Rightarrow> error + ZoomRecording list" where
  "reconstruct [] recordings = Inr recordings"
| "reconstruct (meeting # rest) recordings =
     (case ZoomRecording_call [ArgStr meeting] of
        Inl e \<Rightarrow> Inl e
      | Inr z \<Rightarrow> reconstruct rest (recordings @ [z]))"

text \<open>What the outside world does for each file of each recording.\<close>

type_synonym world = "ZoomRecording \<Rightarrow> RecordingFiles \<Rightarrow> fate"

text \<open>
  The two loops of lines 450 to 528. The file records come back as the loop left them; an
  exception that no handler catches ends the loops.
\<close>

fun process_files ::
  "config \<Rightarrow> libs \<Rightarrow> bool \<Rightarrow> world \<Rightarrow> ZoomRecording \<Rightarrow> RecordingFiles list \<Rightarrow> run
     \<Rightarrow> error option \<times> RecordingFiles list \<times> run" where
  "process_files conf l dry_run wd recording [] r = (None, [], r)"
| "process_files conf l dry_run wd recording (file # rest) r =
     (case process_file conf l dry_run (wd recording file) recording file r of
        (Some e, file', r') \<Rightarrow> (Some e, file' # rest, r')
      | (None, file', r') \<Rightarrow>
          (case process_files conf l dry_run wd recording rest r' of
             (res, rest', r'') \<Rightarrow> (res, file' # rest', r'')))"

fun process_recordings ::
  "config \<Rightarrow> libs \<Rightarrow> bool \<Rightarrow> string list \<Rightarrow> world \<Rightarrow> ZoomRecording list \<Rightarrow> run
     \<Rightarrow> error option \<times> ZoomRecording list \<times> run" where
  "process_recordings conf l dry_run users wd [] r = (None, [], r)"
| "process_recordings conf l dry_run users wd (recording # rest) r =
     (let r0 = emit [Printed ''============== Processing Recording ================''] r in
      if user recording \<notin> set users then
        (case process_recordings conf l dry_run users wd rest
                (emit [Printed ''User not part of supplied userlist. skipping...''] r0) of
           (res, rest', r') \<Rightarrow> (res, recording # rest', r'))
      else
        (case process_files conf l dry_run wd recording (files recording)
                (emit [Printed ''files found for this recording''] r0) of
           (Some e, fs, r') \<Rightarrow> (Some e, recording\<lparr>files := fs\<rparr> # rest, r')
         | (None, fs, r') \<Rightarrow>
             (case process_recordings conf l dry_run users wd rest r' of
                (res, rest', r'') \<Rightarrow> (res, recording\<lparr>files := fs\<rparr> # rest', r''))))"

text \<open>How \<open>main\<close> ends: it returns a value (\<open>None\<close> at the end of its body) or an exception leaves it.\<close>

datatype outcome = Returned "int option" | Raised error

text \<open>
  \<open>main\<close> from the point where the recordings were retrieved (line 419 on), given the
  ledger file and the staged files it finds. The run's variables start at zero.
\<close>

definition main_from ::
  "config \<Rightarrow> libs \<Rightarrow> bool \<Rightarrow> string list \<Rightarrow> world \<Rightarrow> ZoomRecording list \<Rightarrow> ledger_file \<Rightarrow> string set
     \<Rightarrow> outcome \<times> ZoomRecording list \<times> run" where
  "main_from conf l dry_run users wd recordings file staged =
     (let file0 = (if file = Absent then Document [] else file);
          r = \<lparr> completed_meeting_record = file0, staged_files = staged, completed_recordings = 0,
                failed_files = 0, total_recording_size = 0,
                events = [Printed ''requesting recordings for each user''] \<rparr>;
          retrieved =
            (if recordings = [] then
               (case json_load file0 of
                  Inl e \<Rightarrow> Inl (Raised e)
                | Inr data \<Rightarrow>
                    if length data = 0 then Inl (Returned (Some 1))
                    else (case reconstruct (map fst data) recordings of
                            Inl e \<Rightarrow> Inl (Raised e)
                          | Inr recordings' \<Rightarrow> Inr recordings'))
             else Inr recordings)
      in case retrieved of
           Inl out \<Rightarrow> (out, recordings, r)
         | Inr recordings' \<Rightarrow>
             (case process_recordings conf l dry_run users wd recordings' r of
                (Some e, recordings'', r') \<Rightarrow> (Raised e, recordings'', r')
              | (None, recordings'', r') \<Rightarrow>
                  (Returned None, recordings'',
                   emit [Printed ''successfully uploaded'', Printed ''failed to upload'',
                         Printed ''total size of uploaded files'',
                         Printed ''cleaning up empty folders...''] r')))"

definition main ::
  "config \<Rightarrow> libs \<Rightarrow> bool \<Rightarrow> string list \<Rightarrow> provider \<Rightarrow> int \<Rightarrow> int \<Rightarrow> world \<Rightarrow> ledger_file \<Rightarrow> string set
     \<Rightarrow> (outcome \<times> ZoomRecording list \<times> run) option" where
  "main conf l dry_run users zoom start_date end_date wd file staged =
     (case get_recordings_for_users zoom start_date end_date users [] of
        None \<Rightarrow> None
      | Some (Inl e) \<Rightarrow>
          Some (Raised e, [],
                \<lparr> completed_meeting_record = file, staged_files = staged, completed_recordings = 0,
                  failed_files = 0, total_recording_size = 0,
                  events = [Printed ''requesting recordings for each user''] \<rparr>)
      | Some (Inr recordings) \<Rightarrow> Some (main_from conf l dry_run users wd recordings file staged))"

text \<open>
  The exit status of the script, whose last line is \<open>asyncio.run(main())\<close>: the value \<open>main\<close>
  returns is dropped and the interpreter exits with 0; an exception that leaves \<open>main\<close> ends
  the interpreter with 1.
\<close>

fun exit_code :: "outcome \<Rightarrow> nat" where
  "exit_code (Returned v) = 0"
| "exit_code (Raised e) = 1"

section \<open>A sample run\<close>

text \<open>
  A configuration with the default templates, one meeting with one screen recording and a
  run on 15 January 2024, used to run the definitions on concrete inputs. The sample
  libraries leave a clean path as it is; their date parser reads the timestamp of the
  sample meeting, takes the date of a bare time of day from the clock, as \<open>dateutil\<close> does,
  and rejects any other string; the sample templates have no other replacement field, and
  none is known to the sample libraries.
\<close>

definition sample_config :: config where
  "sample_config =
     \<lparr> MEETING_FILENAME = default_MEETING_FILENAME, MEETING_FOLDER = default_MEETING_FOLDER,
       DOWNLOAD_DIRECTORY = ''downloads'', SHAREPOINT_BASE_DIR_PATH = ''root:/Zoom'' \<rparr>"

definition sample_libs :: libs where
  "sample_libs =
     \<lparr> sanitize_filepath = (\<lambda>p. p), sanitize_filename = (\<lambda>n. n),
       local_date = (\<lambda>now s. if s = ''2021-03-18T05:41:36Z'' then Inr (2021, 3, 18)
                              else if s = ''05:41:36'' then Inr now else Inl ParserError),
       repr = (\<lambda>v. ''[]''),
       other_field = (\<lambda>now f file_ext recording recording_id recording_type. Inl KeyError) \<rparr>"

definition sample_file :: "string \<Rightarrow> RecordingFiles" where
  "sample_file st =
     \<lparr> download_url = JStr ''https://zoom.us/rec/download/abc'', file_extension = ''mp4'',
       file_id = JStr ''f1'', status = JStr st, file_type = JStr ''shared_screen'' \<rparr>"

definition sample_recording :: "string \<Rightarrow> ZoomRecording" where
  "sample_recording st =
     \<lparr> account_id = JStr ''acc'', files = [sample_file st], rec_id = JStr ''m1'',
       password = JStr ''pw'', rec_size = JNum 1000, start_time = JStr ''2021-03-18T05:41:36Z'',
       topic = JStr ''Weekly Sync'', user = ''ann@example.com'' \<rparr>"

definition sample_path :: string where
  "sample_path = ''downloads/Weekly_Sync - 2021.03.18/2021.03.18 - Weekly_Sync - Shared Screen - f1.mp4''"

definition sample_run :: "ledger_file \<Rightarrow> string set \<Rightarrow> run" where
  "sample_run file staged =
     \<lparr> completed_meeting_record = file, staged_files = staged, completed_recordings = 0,
       failed_files = 0, total_recording_size = 0, events = [] \<rparr>"

definition sample_fate :: "download_outcome \<Rightarrow> upload_outcome \<Rightarrow> fate" where
  "sample_fate d u =
     \<lparr> today = (2024, 1, 15), download = d, session = SessionCreated, task = u,
       first_write = WriteOk, second_write = WriteOk \<rparr>"

text \<open>
  A provider that answers the window from day 738000 to day 738030 with one meeting and
  times out on every other request.
\<close>

definition sample_zoom :: provider where
  "sample_zoom email w n =
     (if w = (days 738000, days 738030)
      then Body [(''meetings'', JArr [JObj [(''uuid'', JStr ''m1'')]])]
      else ConnectTimeout)"

section \<open>Notions used in the statements\<close>

text \<open>
  A window is answered when its retry loop gets a response and the meetings of the
  response, if it has any, can be added to the list.
\<close>

definition answered :: "(int \<times> int \<Rightarrow> nat \<Rightarrow> attempt) \<Rightarrow> int \<times> int \<Rightarrow> bool" where
  "answered get_recordings w \<longleftrightarrow>
     (case request_window (get_recordings w) 0 max_retries of
        Some (Inr recordings_data) \<Rightarrow>
          (case map_of recordings_data ''meetings'' of
             None \<Rightarrow> True
           | Some ms \<Rightarrow> (case iterate ms of Inr xs \<Rightarrow> True | Inl e \<Rightarrow> False))
      | _ \<Rightarrow> False)"


text \<open>A string is clean when no character of the invalid class occurs in it.\<close>

definition clean :: "string \<Rightarrow> bool" where
  "clean s \<longleftrightarrow> (\<forall>c \<in> set s. \<not> invalid_char c)"

section \<open>Properties of the ledger store\<close>





text \<open>
  Claim C6, as stated, fails: the write is not atomic. The ledger holds the status
  \<open>downloaded\<close> for meeting \<open>m1\<close>; the update to \<open>uploaded\<close> is stopped by an I/O error before
  the first chunk is written. The file is then neither the prior document nor the merged
  one: it is the empty prefix of the new text.
\<close>

theorem update_meeting_json_file_truncates_counterexample:
  "update_meeting_json_file (Document [(''m1'', [''_status'' \<mapsto> JStr ''downloaded''])])
       (JStr ''m1'') [''_status'' \<mapsto> JStr ''uploaded''] (WriteFails 0)
     = (Inl OSError,
        Truncated (merge_entry [(''m1'', [''_status'' \<mapsto> JStr ''downloaded''])] (JStr ''m1'')
                     [''_status'' \<mapsto> JStr ''uploaded'']) 0)
   \<and> Truncated (merge_entry [(''m1'', [''_status'' \<mapsto> JStr ''downloaded''])] (JStr ''m1'')
                     [''_status'' \<mapsto> JStr ''uploaded'']) 0
       \<noteq> Document [(''m1'', [''_status'' \<mapsto> JStr ''downloaded''])]
   \<and> Truncated (merge_entry [(''m1'', [''_status'' \<mapsto> JStr ''downloaded''])] (JStr ''m1'')
                     [''_status'' \<mapsto> JStr ''uploaded'']) 0
       \<noteq> Document (merge_entry [(''m1'', [''_status'' \<mapsto> JStr ''downloaded''])] (JStr ''m1'')
                     [''_status'' \<mapsto> JStr ''uploaded''])"
  by (simp add: update_meeting_json_file_def Let_def)

text \<open>
  Claim C6, amended. \<open>update_meeting_json_file\<close> rewrites the ledger file in place. A call
  that succeeds leaves the whole merged mapping on disk, and a completed write of a
  hashable identifier always succeeds. A call that fails leaves the file either as it was
  or holding only the first chunks of the new text: as it was when the identifier is
  unhashable (\<open>TypeError\<close>) or the file cannot be opened for writing; truncated when the
  write stops after the file was opened. A truncated file is rejected by \<open>json.load\<close>, and
  a document that was on disk before such a write is lost.
\<close>

theorem update_meeting_json_file_rewrites_in_place:
  "(fst (update_meeting_json_file file meeting_id meeting_json w) = Inr ()
      \<longrightarrow> snd (update_meeting_json_file file meeting_id meeting_json w)
          = Document (merge_entry (case json_load file of Inl e \<Rightarrow> [] | Inr d \<Rightarrow> d)
                        meeting_id meeting_json))
   \<and> (hashable meeting_id
      \<longrightarrow> fst (update_meeting_json_file file meeting_id meeting_json WriteOk) = Inr ())
   \<and> (fst (update_meeting_json_file file meeting_id meeting_json w) \<noteq> Inr ()
      \<longrightarrow> snd (update_meeting_json_file file meeting_id meeting_json w) = file
        \<or> (\<exists>n. snd (update_meeting_json_file file meeting_id meeting_json w)
                 = Truncated (merge_entry (case json_load file of Inl e \<Rightarrow> [] | Inr d \<Rightarrow> d)
                                meeting_id meeting_json) n))
   \<and> (\<not> hashable meeting_id
      \<longrightarrow> update_meeting_json_file file meeting_id meeting_json w = (Inl TypeError, file))
   \<and> (hashable meeting_id
      \<longrightarrow> update_meeting_json_file file meeting_id meeting_json OpenFails = (Inl OSError, file))
   \<and> (hashable meeting_id
      \<longrightarrow> update_meeting_json_file file meeting_id meeting_json (WriteFails n)
          = (Inl OSError,
             Truncated (merge_entry (case json_load file of Inl e \<Rightarrow> [] | Inr d \<Rightarrow> d)
                          meeting_id meeting_json) n)
        \<and> json_load (snd (update_meeting_json_file file meeting_id meeting_json (WriteFails n)))
          = Inl JSONDecodeError
        \<and> snd (update_meeting_json_file (Document d0) meeting_id meeting_json (WriteFails n))
          \<noteq> Document d0)"
  by (cases w) (simp_all add: update_meeting_json_file_def Let_def)

theorem update_meeting_json_file_rewrites_in_place_witness:
  "hashable (JStr ''m1'') \<and> \<not> hashable (JArr [])
   \<and> update_meeting_json_file (Document []) (JStr ''m1'') [''_status'' \<mapsto> JStr ''uploaded''] WriteOk
       = (Inr (), Document [(''m1'', [''_status'' \<mapsto> JStr ''uploaded''])])
   \<and> update_meeting_json_file (Document []) (JArr []) [''_status'' \<mapsto> JStr ''uploaded''] WriteOk
       = (Inl TypeError, Document [])
   \<and> update_meeting_json_file (Document []) (JStr ''m1'') [''_status'' \<mapsto> JStr ''uploaded''] OpenFails
       = (Inl OSError, Document [])
   \<and> fst (update_meeting_json_file (Document []) (JStr ''m1'') [''_status'' \<mapsto> JStr ''uploaded'']
             (WriteFails 2)) = Inl OSError
   \<and> json_load (snd (update_meeting_json_file (Document []) (JStr ''m1'')
                        [''_status'' \<mapsto> JStr ''uploaded''] (WriteFails 2)))
       = Inl JSONDecodeError
   \<and> snd (update_meeting_json_file (Document []) (JStr ''m1'')
             [''_status'' \<mapsto> JStr ''uploaded''] (WriteFails 2)) \<noteq> Document []"
  using update_meeting_json_file_rewrites_in_place
          [of "Document []" "JStr ''m1''" "[''_status'' \<mapsto> JStr ''uploaded'']" WriteOk 2 "[]"]
        update_meeting_json_file_rewrites_in_place
          [of "Document []" "JArr []" "[''_status'' \<mapsto> JStr ''uploaded'']" WriteOk 2 "[]"]
  by (simp add: update_meeting_json_file_def merge_entry_def Let_def)

section \<open>Properties of the recording records\<close>

text \<open>
  Claim C10. \<open>RecordingFiles(file_json)\<close> succeeds exactly when the object has a
  \<open>"file_extension"\<close> key holding a string. When the key is absent, or holds anything else,
  the constructor raises (\<open>AttributeError\<close>, from \<open>.lower()\<close> on the value): the field is
  never defaulted.
\<close>

theorem RecordingFiles_init_file_extension:
  "((\<exists>f. RecordingFiles_init (JObj kvs) = Inr f)
      \<longleftrightarrow> (\<exists>ext. map_of kvs ''file_extension'' = Some (JStr ext)))
   \<and> ((\<forall>ext. map_of kvs ''file_extension'' \<noteq> Some (JStr ext))
      \<longrightarrow> RecordingFiles_init (JObj kvs) = Inl AttributeError)"
  by (auto simp: RecordingFiles_init_def dict_get_def split: option.splits json.splits)

theorem RecordingFiles_init_file_extension_witness:
  "(\<forall>ext. map_of [(''id'', JStr ''f1''), (''recording_type'', JStr ''audio_only'')] ''file_extension''
            \<noteq> Some (JStr ext))
   \<and> RecordingFiles_init (JObj [(''id'', JStr ''f1''), (''recording_type'', JStr ''audio_only'')])
       = Inl AttributeError
   \<and> (\<exists>f. RecordingFiles_init (JObj [(''id'', JStr ''f1''), (''file_extension'', JStr ''MP4'')]) = Inr f)"
  using RecordingFiles_init_file_extension
          [of "[(''id'', JStr ''f1''), (''recording_type'', JStr ''audio_only'')]"]
        RecordingFiles_init_file_extension
          [of "[(''id'', JStr ''f1''), (''file_extension'', JStr ''MP4'')]"]
  by simp

section \<open>Properties of the date windows\<close>

lemma per_delta_windows:
  assumes "0 < delta" and "end' + delta \<le> datetime_max + 1"
  shows "0 \<le> cur \<Longrightarrow> cur < end' \<Longrightarrow>
     \<exists>ws. per_delta cur end' delta = Some (ws, None)
        \<and> ws \<noteq> [] \<and> fst (hd ws) = cur \<and> snd (last ws) = end'
        \<and> (\<forall>w \<in> set ws. fst w < snd w \<and> snd w - fst w \<le> delta)
        \<and> (\<forall>i. Suc i < length ws \<longrightarrow> snd (ws ! i) = fst (ws ! Suc i))
        \<and> (\<forall>t. (\<exists>w \<in> set ws. fst w \<le> t \<and> t < snd w) \<longleftrightarrow> cur \<le> t \<and> t < end')"
proof (induction "nat (end' - cur)" arbitrary: cur rule: less_induct)
  case less
  have add: "datetime_add cur delta = Inr (cur + delta)"
    using assms less.prems by (simp add: datetime_add_def)
  show ?case
  proof (cases "cur + delta < end'")
    case False
    then have "per_delta (cur + delta) end' delta = Some ([], None)"
      by (subst per_delta.simps) simp
    then have "per_delta cur end' delta = Some ([(cur, end')], None)"
      using less.prems False add by (subst per_delta.simps) (simp add: min_def)
    then show ?thesis using less.prems False by auto
  next
    case True
    have "nat (end' - (cur + delta)) < nat (end' - cur)"
      using assms(1) less.prems by linarith
    moreover have "0 \<le> cur + delta" using assms(1) less.prems by linarith
    ultimately obtain ws where ws:
      "per_delta (cur + delta) end' delta = Some (ws, None)"
      "ws \<noteq> []" "fst (hd ws) = cur + delta" "snd (last ws) = end'"
      "\<forall>w \<in> set ws. fst w < snd w \<and> snd w - fst w \<le> delta"
      "\<forall>i. Suc i < length ws \<longrightarrow> snd (ws ! i) = fst (ws ! Suc i)"
      "\<forall>t. (\<exists>w \<in> set ws. fst w \<le> t \<and> t < snd w) \<longleftrightarrow> cur + delta \<le> t \<and> t < end'"
      using less.hyps [of "cur + delta"] True by blast
    have eq: "per_delta cur end' delta = Some ((cur, cur + delta) # ws, None)"
      using less.prems True add ws(1) by (subst per_delta.simps) (simp add: min_def)
    have chain: "\<forall>i. Suc i < length ((cur, cur + delta) # ws)
        \<longrightarrow> snd (((cur, cur + delta) # ws) ! i) = fst (((cur, cur + delta) # ws) ! Suc i)"
    proof (intro allI impI)
      fix i assume i: "Suc i < length ((cur, cur + delta) # ws)"
      show "snd (((cur, cur + delta) # ws) ! i) = fst (((cur, cur + delta) # ws) ! Suc i)"
      proof (cases i)
        case 0
        then show ?thesis using ws(2,3) by (simp add: hd_conv_nth)
      next
        case (Suc j)
        then show ?thesis using ws(6) i by simp
      qed
    qed
    have cover: "\<forall>t. (\<exists>w \<in> set ((cur, cur + delta) # ws). fst w \<le> t \<and> t < snd w)
        \<longleftrightarrow> cur \<le> t \<and> t < end'"
    proof
      fix t
      have "(\<exists>w \<in> set ((cur, cur + delta) # ws). fst w \<le> t \<and> t < snd w)
          \<longleftrightarrow> (cur \<le> t \<and> t < cur + delta) \<or> (\<exists>w \<in> set ws. fst w \<le> t \<and> t < snd w)"
        by simp
      also have "\<dots> \<longleftrightarrow> (cur \<le> t \<and> t < cur + delta) \<or> (cur + delta \<le> t \<and> t < end')"
        using ws(7) by simp
      also have "\<dots> \<longleftrightarrow> cur \<le> t \<and> t < end'"
        using True assms(1) by linarith
      finally show "(\<exists>w \<in> set ((cur, cur + delta) # ws). fst w \<le> t \<and> t < snd w)
          \<longleftrightarrow> cur \<le> t \<and> t < end'" .
    qed
    have first: "(cur, cur + delta) # ws \<noteq> [] \<and> fst (hd ((cur, cur + delta) # ws)) = cur
        \<and> snd (last ((cur, cur + delta) # ws)) = end'"
      using ws(2,4) by simp
    have each: "\<forall>w \<in> set ((cur, cur + delta) # ws). fst w < snd w \<and> snd w - fst w \<le> delta"
      using ws(5) assms(1) by simp
    show ?thesis
      using eq first each chain cover by (intro exI [of _ "(cur, cur + delta) # ws"]) blast
  qed
qed

text \<open>
  Claim C7, as stated, fails for a range that ends less than 30 days before the last
  datetime: \<open>curr + delta\<close> leaves the range of \<open>datetime\<close> and raises \<open>OverflowError\<close>. From ten
  days before the last datetime to five days before it, the generator raises before it
  yields any window.
\<close>

theorem per_delta_overflow_counterexample:
  "0 \<le> datetime_max - days 10 \<and> datetime_max - days 10 < datetime_max - days 5
   \<and> datetime_max - days 5 \<le> datetime_max
   \<and> per_delta (datetime_max - days 10) (datetime_max - days 5) (days 30) = Some ([], Some OverflowError)"
  by (simp add: per_delta.simps days_def datetime_add_def datetime_max_def)

text \<open>
  Claim C7, amended. For datetimes \<open>start < end\<close> with \<open>end + delta\<close> not later than one
  microsecond after the last datetime, and a positive \<open>delta\<close> (30 days in
  \<open>list_recordings\<close>), \<open>per_delta\<close> ends without an exception and its windows cover
  \<open>[start, end)\<close> exactly: there is at least one, the first starts at \<open>start\<close>, the last ends
  at \<open>end\<close>, each is non-empty and spans at most \<open>delta\<close>, each ends where the next one
  starts, and an instant lies in some window exactly when it lies in \<open>[start, end)\<close>.
\<close>

theorem per_delta_covers:
  assumes "0 \<le> start" and "start < end'" and "0 < delta" and "end' + delta \<le> datetime_max + 1"
  shows "\<exists>ws. per_delta start end' delta = Some (ws, None)
        \<and> ws \<noteq> [] \<and> fst (hd ws) = start \<and> snd (last ws) = end'
        \<and> (\<forall>w \<in> set ws. fst w < snd w \<and> snd w - fst w \<le> delta)
        \<and> (\<forall>i. Suc i < length ws \<longrightarrow> snd (ws ! i) = fst (ws ! Suc i))
        \<and> (\<forall>t. (\<exists>w \<in> set ws. fst w \<le> t \<and> t < snd w) \<longleftrightarrow> start \<le> t \<and> t < end')"
  using per_delta_windows [OF assms(3,4,1,2)] .

theorem per_delta_covers_witness:
  "0 \<le> days 738000 \<and> days 738000 < days 738045 \<and> 0 < days 30
   \<and> days 738045 + days 30 \<le> datetime_max + 1
   \<and> (\<exists>ws. per_delta (days 738000) (days 738045) (days 30) = Some (ws, None)
        \<and> ws \<noteq> [] \<and> fst (hd ws) = days 738000 \<and> snd (last ws) = days 738045
        \<and> (\<forall>w \<in> set ws. fst w < snd w \<and> snd w - fst w \<le> days 30)
        \<and> (\<forall>i. Suc i < length ws \<longrightarrow> snd (ws ! i) = fst (ws ! Suc i))
        \<and> (\<forall>t. (\<exists>w \<in> set ws. fst w \<le> t \<and> t < snd w) \<longleftrightarrow> days 738000 \<le> t \<and> t < days 738045))"
proof -
  have h: "0 \<le> days 738000" "days 738000 < days 738045" "0 < days 30"
    "days 738045 + days 30 \<le> datetime_max + 1"
    by (simp_all add: days_def datetime_max_def)
  from per_delta_covers [OF h] h show ?thesis by blast
qed

section \<open>Properties of the listing\<close>

lemma request_window_exhausted:
  "(\<forall>j < n. call (i + j) = ConnectTimeout \<or> call (i + j) = ReadTimeout)
     \<Longrightarrow> request_window call i n = None"
proof (induction n arbitrary: i)
  case 0
  then show ?case by simp
next
  case (Suc n)
  have h: "call i = ConnectTimeout \<or> call i = ReadTimeout"
    using Suc.prems [rule_format, of 0] by simp
  have "\<forall>j<n. call (Suc i + j) = ConnectTimeout \<or> call (Suc i + j) = ReadTimeout"
    using Suc.prems by (metis Suc_less_eq add_Suc add_Suc_right)
  then have "request_window call (Suc i) n = None"
    by (rule Suc.IH)
  with h show ?case by auto
qed

lemma gather_abandons:
  "\<forall>v \<in> set pre. answered g v \<Longrightarrow> request_window (g w) 0 max_retries = None
     \<Longrightarrow> gather g (pre @ w # post) stop acc = Inr []"
proof (induction pre arbitrary: acc)
  case Nil
  then show ?case by simp
next
  case (Cons v pre)
  then show ?case
    by (auto simp: answered_def split: option.splits sum.splits)
qed

lemma sample_windows:
  "per_delta (days 738000) (days 738045) (days 30)
     = Some ([(days 738000, days 738030), (days 738030, days 738045)], None)"
  by (simp add: per_delta.simps days_def datetime_add_def datetime_max_def)

text \<open>
  Claim C3, as stated, fails: a window that runs out of attempts ends the whole listing of
  the user. The range of 45 days has two windows; the first is answered with one meeting,
  the second times out three times. The result is the empty list, not the meeting of the
  first window.
\<close>

theorem list_recordings_skips_window_counterexample:
  "gather (sample_zoom ''ann@example.com'') [(days 738000, days 738030)] None []
     = Inr [JObj [(''uuid'', JStr ''m1'')]]
   \<and> request_window (sample_zoom ''ann@example.com'' (days 738030, days 738045)) 0 max_retries = None
   \<and> list_recordings sample_zoom ''ann@example.com'' (days 738000) (days 738045) = Some (Inr [])"
  by (simp add: list_recordings_def sample_windows)
     (simp add: sample_zoom_def max_retries_def numeral_3_eq_3 days_def)

text \<open>
  Claim C3, amended. When the windows before it were answered and the call for one window
  times out on each of its 3 attempts, \<open>list_recordings\<close> returns the empty list: the
  listing of that user is abandoned, the meetings gathered from the earlier windows are
  dropped and the later windows are not requested.
\<close>

theorem list_recordings_abandons_user:
  assumes "per_delta start_date end_date (days 30) = Some (pre @ w # post, stop)"
    and "\<forall>v \<in> set pre. answered (zoom email) v"
    and "\<forall>i < max_retries. zoom email w i = ConnectTimeout \<or> zoom email w i = ReadTimeout"
  shows "list_recordings zoom email start_date end_date = Some (Inr [])"
proof -
  have "request_window (zoom email w) 0 max_retries = None"
    using assms(3) by (intro request_window_exhausted) simp
  with assms(2) have "gather (zoom email) (pre @ w # post) stop [] = Inr []"
    by (rule gather_abandons)
  with assms(1) show ?thesis
    by (simp add: list_recordings_def)
qed

theorem list_recordings_abandons_user_witness:
  "per_delta (days 738000) (days 738045) (days 30)
     = Some ([(days 738000, days 738030), (days 738030, days 738045)], None)
   \<and> answered (sample_zoom ''ann@example.com'') (days 738000, days 738030)
   \<and> sample_zoom ''ann@example.com'' (days 738030, days 738045) 0 = ConnectTimeout
   \<and> sample_zoom ''ann@example.com'' (days 738030, days 738045) 1 = ConnectTimeout
   \<and> sample_zoom ''ann@example.com'' (days 738030, days 738045) 2 = ConnectTimeout
   \<and> list_recordings sample_zoom ''ann@example.com'' (days 738000) (days 738045) = Some (Inr [])"
proof -
  have a: "per_delta (days 738000) (days 738045) (days 30)
     = Some ([(days 738000, days 738030)] @ (days 738030, days 738045) # [], None)"
    using sample_windows by simp
  have b: "\<forall>v \<in> set [(days 738000, days 738030)]. answered (sample_zoom ''ann@example.com'') v"
    by (simp add: answered_def sample_zoom_def max_retries_def numeral_3_eq_3)
  have c: "\<forall>i < max_retries. sample_zoom ''ann@example.com'' (days 738030, days 738045) i = ConnectTimeout
          \<or> sample_zoom ''ann@example.com'' (days 738030, days 738045) i = ReadTimeout"
    by (simp add: sample_zoom_def days_def)
  have d: "sample_zoom ''ann@example.com'' (days 738030, days 738045) 0 = ConnectTimeout"
    "sample_zoom ''ann@example.com'' (days 738030, days 738045) 1 = ConnectTimeout"
    "sample_zoom ''ann@example.com'' (days 738030, days 738045) 2 = ConnectTimeout"
    by (simp_all add: sample_zoom_def days_def)
  from list_recordings_abandons_user
         [of "days 738000" "days 738045" "[(days 738000, days 738030)]" "(days 738030, days 738045)"
             "[]" None sample_zoom "''ann@example.com''", OF a b c] a b d
  show ?thesis by simp
qed

section \<open>Properties of the processing of one file\<close>

lemmas sample_defs = sample_config_def sample_libs_def sample_recording_def sample_file_def
  sample_path_def sample_run_def sample_fate_def

lemmas format_defs = format_filename_def default_MEETING_FILENAME_def default_MEETING_FOLDER_def
  zero_pad_def decimal_nat.simps digit_def invalid_char_def replace_char_def title_def is_lower_def
  is_upper_def upper_char_def lower_char_def lower_def py_str_def

lemmas run_defs = upload_stage_def download_failed_def write_ledger_def emit_def
  update_meeting_json_file_def merge_entry_def upload_large_file_def basename_def

lemma sample_names:
  "format_filename sample_config sample_libs now ''mp4'' (sample_recording st) (JStr ''f1'')
     (JStr ''shared_screen'')
   = Inr (''2021.03.18 - Weekly_Sync - Shared Screen - f1.mp4'', ''Weekly_Sync - 2021.03.18'')"
  by (simp add: format_defs sample_defs Let_def)

lemma sample_file_names:
  "format_filename sample_config sample_libs now (file_extension (sample_file st))
     (sample_recording st') (file_id (sample_file st)) (file_type (sample_file st))
   = Inr (''2021.03.18 - Weekly_Sync - Shared Screen - f1.mp4'', ''Weekly_Sync - 2021.03.18'')"
  using sample_names [of now st'] by (simp add: sample_file_def)

text \<open>
  The handler of \<open>main\<close> for a failed upload does what the state table says, when an
  exception reaches it: here \<open>task.upload\<close> raises an exception that is not an \<open>APIError\<close>.
  The file is marked \<open>upload failed\<close>, the failure is counted, the ledger is written and the
  staged file stays.
\<close>

lemma upload_exception_marked_failed:
  "process_file sample_config sample_libs False
       (sample_fate DownloadCompletes (UploadRaises RequestException))
       (sample_recording ''downloaded'') (sample_file ''downloaded'')
       (sample_run (Document []) {sample_path})
     = (None, sample_file ''upload failed'',
        \<lparr> completed_meeting_record = Document [(''m1'', to_json (sample_file ''upload failed''))],
          staged_files = {sample_path}, completed_recordings = 0, failed_files = 1,
          total_recording_size = 0,
          events = [Printed ''processing file'', Printed ''    > Uploading to'',
                    Printed ''Exception'', Printed ''failed to upload file'',
                    LedgerWritten (JStr ''m1'') (to_json (sample_file ''upload failed''))] \<rparr>)"
  by (simp add: process_file_def sample_file_names)
     (simp add: run_defs sample_defs Let_def)

text \<open>
  Claim C1 (fails on the code). The claim: a file with status \<open>downloaded\<close> whose upload
  meets a chunk error fails with an error carrying the status code, becomes
  \<open>upload failed\<close>, adds one to the failure counter and keeps its staged file. The code:
  \<open>upload_large_file\<close> catches the \<open>APIError\<close> of \<open>task.upload\<close>, prints it with the status code
  and returns; \<open>main\<close> then takes the \<open>else\<close> branch of its \<open>try\<close>. With a chunk error of
  status 500 the file becomes \<open>uploaded\<close>, the failure counter stays 0, the completed
  counter becomes 1 and the staged file is removed.
\<close>

theorem upload_error_marked_uploaded:
  "upload_large_file {sample_path} SessionCreated (UploadAPIError 500) sample_path ''remote''
     = (Inr (), [Printed ''Error uploading: 500''])
   \<and> process_file sample_config sample_libs False (sample_fate DownloadCompletes (UploadAPIError 500))
       (sample_recording ''downloaded'') (sample_file ''downloaded'')
       (sample_run (Document []) {sample_path})
     = (None, sample_file ''uploaded'',
        \<lparr> completed_meeting_record = Document [(''m1'', to_json (sample_file ''uploaded''))],
          staged_files = {}, completed_recordings = 1, failed_files = 0,
          total_recording_size = 1000,
          events = [Printed ''processing file'', Printed ''    > Uploading to'',
                    Printed ''Error uploading: 500'',
                    LedgerWritten (JStr ''m1'') (to_json (sample_file ''uploaded'')),
                    Removed sample_path, Printed ''Finished processing file''] \<rparr>)"
  by (simp add: process_file_def sample_file_names)
     (simp add: run_defs sample_defs decimal_nat.simps digit_def Let_def)










text \<open>
  The handler of \<open>main\<close> for a failed download does what the state table says, when an
  exception reaches it: here \<open>requests.get\<close> raises. The file is marked \<open>download failed\<close>,
  the ledger is written and the failure is counted.
\<close>

lemma download_exception_marked_failed:
  "process_file sample_config sample_libs False
       (sample_fate (DownloadRaises RequestException) UploadCompletes)
       (sample_recording ''pending'') (sample_file ''pending'') (sample_run (Document []) {})
     = (None, sample_file ''download failed'',
        \<lparr> completed_meeting_record = Document [(''m1'', to_json (sample_file ''download failed''))],
          staged_files = {}, completed_recordings = 0, failed_files = 1,
          total_recording_size = 0,
          events = [Printed ''processing file'', Printed ''    > Downloading'',
                    DownloadCalled (JStr ''https://zoom.us/rec/download/abc'') (JStr ''pw'') sample_path,
                    Printed ''### Failed to process file'',
                    LedgerWritten (JStr ''m1'') (to_json (sample_file ''download failed''))] \<rparr>)"
  by (simp add: process_file_def sample_file_names)
     (simp add: run_defs sample_defs Let_def)

text \<open>
  Claim C5 (fails on the code). The claim: whatever way the download of a \<open>pending\<close> file
  fails, the file becomes \<open>download failed\<close>, the ledger is written and the failure is
  counted. The code: an exception while the content is streamed to disk is caught inside
  \<open>download_recording\<close>, which returns \<open>False\<close>; \<open>main\<close> tests the value with \<open>elif\<close> and has
  no branch for \<open>False\<close>. The file stays \<open>pending\<close>, the ledger is not written and the
  failure counter stays 0.
\<close>

theorem broken_download_dropped:
  "download_recording StreamBreaks sample_path {} = (Inr False, {sample_path})
   \<and> process_file sample_config sample_libs False (sample_fate StreamBreaks UploadCompletes)
       (sample_recording ''pending'') (sample_file ''pending'') (sample_run (Document []) {})
     = (None, sample_file ''pending'',
        \<lparr> completed_meeting_record = Document [], staged_files = {sample_path},
          completed_recordings = 0, failed_files = 0, total_recording_size = 0,
          events = [Printed ''processing file'', Printed ''    > Downloading'',
                    DownloadCalled (JStr ''https://zoom.us/rec/download/abc'') (JStr ''pw'') sample_path,
                    Printed ''### The video recording could not be downloaded'',
                    Printed ''Finished processing file''] \<rparr>)"
  by (simp add: process_file_def sample_file_names)
     (simp add: run_defs sample_defs Let_def)

section \<open>Properties of the filename and folder\<close>

lemma clean_append [simp]: "clean (a @ b) \<longleftrightarrow> clean a \<and> clean b"
  by (auto simp: clean_def)

lemma clean_Cons [simp]: "clean (c # s) \<longleftrightarrow> \<not> invalid_char c \<and> clean s"
  by (simp add: clean_def)

lemma clean_Nil [simp]: "clean []"
  by (simp add: clean_def)

lemma clean_filter: "clean (filter (\<lambda>c. \<not> invalid_char c) t)"
  by (simp add: clean_def)

lemma clean_replace_char: "\<not> invalid_char b \<Longrightarrow> clean s \<Longrightarrow> clean (replace_char a b s)"
  by (auto simp: clean_def replace_char_def)

lemma letters_valid:
  "c \<in> set ''abcdefghijklmnopqrstuvwxyzABCDEFGHIJKLMNOPQRSTUVWXYZ0123456789'' \<Longrightarrow> \<not> invalid_char c"
  by (auto simp: invalid_char_def)


lemma lower_char_valid: "\<not> invalid_char c \<Longrightarrow> \<not> invalid_char (lower_char c)"
proof (cases "map_of (zip ''ABCDEFGHIJKLMNOPQRSTUVWXYZ'' ''abcdefghijklmnopqrstuvwxyz'') c")
  case None
  then show "\<not> invalid_char c \<Longrightarrow> ?thesis" by (simp add: lower_char_def)
next
  case (Some l)
  then have "l \<in> set ''abcdefghijklmnopqrstuvwxyz''"
    by (meson map_of_SomeD set_zip_rightD)
  then have "\<not> invalid_char l" by (intro letters_valid) auto
  with Some show ?thesis by (simp add: lower_char_def)
qed

lemma upper_char_valid: "\<not> invalid_char c \<Longrightarrow> \<not> invalid_char (upper_char c)"
proof (cases "map_of (zip ''abcdefghijklmnopqrstuvwxyz'' ''ABCDEFGHIJKLMNOPQRSTUVWXYZ'') c")
  case None
  then show "\<not> invalid_char c \<Longrightarrow> ?thesis" by (simp add: upper_char_def)
next
  case (Some u)
  then have "u \<in> set ''ABCDEFGHIJKLMNOPQRSTUVWXYZ''"
    by (meson map_of_SomeD set_zip_rightD)
  then have "\<not> invalid_char u" by (intro letters_valid) auto
  with Some show ?thesis by (simp add: upper_char_def)
qed

lemma clean_lower: "clean s \<Longrightarrow> clean (lower s)"
  by (auto simp: clean_def lower_def lower_char_valid)

lemma clean_title_from: "clean s \<Longrightarrow> clean (title_from b s)"
  by (induction s arbitrary: b) (simp_all add: lower_char_valid upper_char_valid)


lemma digit_valid: "\<not> invalid_char (digit n)"
proof -
  have "n mod 10 < length ''0123456789''" by simp
  then have "digit n \<in> set ''0123456789''"
    unfolding digit_def by (rule nth_mem)
  then show ?thesis by (intro letters_valid) auto
qed

lemma clean_decimal_nat: "clean (decimal_nat n)"
proof (induction n rule: decimal_nat.induct)
  case (1 n)
  show ?case
  proof (cases "n < 10")
    case True
    then show ?thesis by (subst decimal_nat.simps) (simp add: digit_valid)
  next
    case False
    with 1 show ?thesis by (subst decimal_nat.simps) (simp add: digit_valid)
  qed
qed

lemma clean_replicate: "\<not> invalid_char c \<Longrightarrow> clean (replicate k c)"
  by (simp add: clean_def)

lemma clean_zero_pad: "clean (zero_pad w n)"
  unfolding zero_pad_def
  by (simp add: clean_decimal_nat clean_replicate invalid_char_def)

lemma clean_substitute:
  "substitute vals other template = Inr out \<Longrightarrow> (\<forall>f. clean (vals f))
     \<Longrightarrow> (\<forall>s. Text s \<in> set template \<longrightarrow> clean s)
     \<Longrightarrow> (\<forall>f s. Other f \<in> set template \<longrightarrow> other f = Inr s \<longrightarrow> clean s)
     \<Longrightarrow> clean out"
proof (induction template arbitrary: out)
  case Nil
  then show ?case by simp
next
  case (Cons p template)
  show ?case
  proof (cases p)
    case (Text s)
    with Cons.prems obtain rest where "substitute vals other template = Inr rest" "out = s @ rest"
      by (auto split: sum.splits)
    with Cons.IH [of rest] Cons.prems Text show ?thesis by simp
  next
    case (Field f)
    with Cons.prems obtain rest where "substitute vals other template = Inr rest" "out = vals f @ rest"
      by (auto split: sum.splits)
    with Cons.IH [of rest] Cons.prems Field show ?thesis by simp
  next
    case (Other f)
    with Cons.prems obtain s rest where
      "other f = Inr s" "substitute vals other template = Inr rest" "out = s @ rest"
      by (auto split: sum.splits)
    with Cons.IH [of rest] Cons.prems Other show ?thesis by simp
  qed
qed

lemma substitute_same:
  "(\<forall>f. Other f \<in> set template \<longrightarrow> other1 f = other2 f)
     \<Longrightarrow> substitute vals other1 template = substitute vals other2 template"
proof (induction template)
  case Nil
  then show ?case by simp
next
  case (Cons p template)
  then show ?case by (cases p) (auto split: sum.splits)
qed

lemma format_filename_Inr:
  assumes "format_filename conf l now file_ext recording recording_id recording_type
             = Inr (filename, folder)"
  obtains t rt st y m d where
    "topic recording = JStr t" "recording_type = JStr rt" "start_time recording = JStr st"
    "local_date l now st = Inr (y, m, d)"
    "substitute (\<lambda>f. case f of
         Meeting_time \<Rightarrow> zero_pad 4 y @ ''.'' @ zero_pad 2 m @ ''.'' @ zero_pad 2 d
       | Topic \<Rightarrow> replace_char (CHR '' '') (CHR ''_'') (filter (\<lambda>c. \<not> invalid_char c) t)
       | Rec_type \<Rightarrow> title (replace_char (CHR ''_'') (CHR '' '') rt)
       | Recording_id \<Rightarrow> py_str l recording_id
       | File_extension \<Rightarrow> lower file_ext)
       (\<lambda>f. other_field l now f file_ext recording recording_id recording_type)
       (MEETING_FILENAME conf) = Inr filename"
    "substitute (\<lambda>f. case f of
         Meeting_time \<Rightarrow> zero_pad 4 y @ ''.'' @ zero_pad 2 m @ ''.'' @ zero_pad 2 d
       | Topic \<Rightarrow> replace_char (CHR '' '') (CHR ''_'') (filter (\<lambda>c. \<not> invalid_char c) t)
       | Rec_type \<Rightarrow> title (replace_char (CHR ''_'') (CHR '' '') rt)
       | Recording_id \<Rightarrow> py_str l recording_id
       | File_extension \<Rightarrow> lower file_ext)
       (\<lambda>f. other_field l now f file_ext recording recording_id recording_type)
       (MEETING_FOLDER conf) = Inr folder"
  using assms
  by (auto simp: format_filename_def Let_def split: json.splits sum.splits prod.splits)

lemma format_filename_clean:
  assumes ok: "format_filename conf l now file_ext recording recording_id recording_type
                 = Inr (filename, folder)"
    and lit: "\<forall>s. Text s \<in> set (MEETING_FILENAME conf) \<union> set (MEETING_FOLDER conf) \<longrightarrow> clean s"
    and oth: "\<forall>f s. Other f \<in> set (MEETING_FILENAME conf) \<union> set (MEETING_FOLDER conf)
                \<longrightarrow> other_field l now f file_ext recording recording_id recording_type = Inr s
                \<longrightarrow> clean s"
    and ext: "clean file_ext"
    and rid: "clean (py_str l recording_id)"
    and rty: "\<forall>rt. recording_type = JStr rt \<longrightarrow> clean rt"
  shows "clean filename \<and> clean folder"
proof -
  from ok obtain t rt st y m d where
    ty: "recording_type = JStr rt"
    and fn: "substitute (\<lambda>f. case f of
         Meeting_time \<Rightarrow> zero_pad 4 y @ ''.'' @ zero_pad 2 m @ ''.'' @ zero_pad 2 d
       | Topic \<Rightarrow> replace_char (CHR '' '') (CHR ''_'') (filter (\<lambda>c. \<not> invalid_char c) t)
       | Rec_type \<Rightarrow> title (replace_char (CHR ''_'') (CHR '' '') rt)
       | Recording_id \<Rightarrow> py_str l recording_id
       | File_extension \<Rightarrow> lower file_ext)
       (\<lambda>f. other_field l now f file_ext recording recording_id recording_type)
       (MEETING_FILENAME conf) = Inr filename"
    and fd: "substitute (\<lambda>f. case f of
         Meeting_time \<Rightarrow> zero_pad 4 y @ ''.'' @ zero_pad 2 m @ ''.'' @ zero_pad 2 d
       | Topic \<Rightarrow> replace_char (CHR '' '') (CHR ''_'') (filter (\<lambda>c. \<not> invalid_char c) t)
       | Rec_type \<Rightarrow> title (replace_char (CHR ''_'') (CHR '' '') rt)
       | Recording_id \<Rightarrow> py_str l recording_id
       | File_extension \<Rightarrow> lower file_ext)
       (\<lambda>f. other_field l now f file_ext recording recording_id recording_type)
       (MEETING_FOLDER conf) = Inr folder"
    by (rule format_filename_Inr)
  have dot: "\<not> invalid_char (CHR ''.'')" and us: "\<not> invalid_char (CHR ''_'')"
    and sp: "\<not> invalid_char (CHR '' '')"
    by (simp_all add: invalid_char_def)
  have mt: "clean (zero_pad 4 y @ ''.'' @ zero_pad 2 m @ ''.'' @ zero_pad 2 d)"
    by (simp add: clean_zero_pad dot)
  have tp: "clean (replace_char (CHR '' '') (CHR ''_'') (filter (\<lambda>c. \<not> invalid_char c) t))"
    by (intro clean_replace_char us clean_filter)
  have rt: "clean (title (replace_char (CHR ''_'') (CHR '' '') rt))"
    unfolding title_def using rty ty by (intro clean_title_from clean_replace_char sp) simp
  have vals: "\<forall>f. clean (case f of
         Meeting_time \<Rightarrow> zero_pad 4 y @ ''.'' @ zero_pad 2 m @ ''.'' @ zero_pad 2 d
       | Topic \<Rightarrow> replace_char (CHR '' '') (CHR ''_'') (filter (\<lambda>c. \<not> invalid_char c) t)
       | Rec_type \<Rightarrow> title (replace_char (CHR ''_'') (CHR '' '') rt)
       | Recording_id \<Rightarrow> py_str l recording_id
       | File_extension \<Rightarrow> lower file_ext)"
  proof
    fix f
    show "clean (case f of
         Meeting_time \<Rightarrow> zero_pad 4 y @ ''.'' @ zero_pad 2 m @ ''.'' @ zero_pad 2 d
       | Topic \<Rightarrow> replace_char (CHR '' '') (CHR ''_'') (filter (\<lambda>c. \<not> invalid_char c) t)
       | Rec_type \<Rightarrow> title (replace_char (CHR ''_'') (CHR '' '') rt)
       | Recording_id \<Rightarrow> py_str l recording_id
       | File_extension \<Rightarrow> lower file_ext)"
      using mt tp rt rid clean_lower [OF ext] by (cases f) simp_all
  qed
  have "clean filename"
  proof (rule clean_substitute [OF fn vals])
    show "\<forall>s. Text s \<in> set (MEETING_FILENAME conf) \<longrightarrow> clean s"
      using lit by simp
    show "\<forall>f s. Other f \<in> set (MEETING_FILENAME conf)
            \<longrightarrow> other_field l now f file_ext recording recording_id recording_type = Inr s
            \<longrightarrow> clean s"
      using oth by simp
  qed
  moreover have "clean folder"
  proof (rule clean_substitute [OF fd vals])
    show "\<forall>s. Text s \<in> set (MEETING_FOLDER conf) \<longrightarrow> clean s"
      using lit by simp
    show "\<forall>f s. Other f \<in> set (MEETING_FOLDER conf)
            \<longrightarrow> other_field l now f file_ext recording recording_id recording_type = Inr s
            \<longrightarrow> clean s"
      using oth by simp
  qed
  ultimately show ?thesis ..
qed

lemma format_filename_same:
  assumes tp: "topic r1 = topic r2" and st: "start_time r1 = start_time r2"
    and ld: "\<forall>st. start_time r1 = JStr st \<longrightarrow> local_date l now1 st = local_date l now2 st"
    and oth: "\<forall>f. Other f \<in> set (MEETING_FILENAME conf) \<union> set (MEETING_FOLDER conf)
                \<longrightarrow> other_field l now1 f e r1 i t = other_field l now2 f e r2 i t"
  shows "format_filename conf l now1 e r1 i t = format_filename conf l now2 e r2 i t"
proof (cases "topic r2")
  case tpc: (JStr tp')
  show ?thesis
  proof (cases t)
    case tc: (JStr rt)
    show ?thesis
    proof (cases "start_time r2")
      case sc: (JStr s)
      have ld': "local_date l now1 s = local_date l now2 s"
        using ld st sc by simp
      have a: "substitute vals (\<lambda>f. other_field l now1 f e r1 i (JStr rt)) (MEETING_FILENAME conf)
             = substitute vals (\<lambda>f. other_field l now2 f e r2 i (JStr rt)) (MEETING_FILENAME conf)"
        for vals
        using oth tc by (intro substitute_same) simp
      have b: "substitute vals (\<lambda>f. other_field l now1 f e r1 i (JStr rt)) (MEETING_FOLDER conf)
             = substitute vals (\<lambda>f. other_field l now2 f e r2 i (JStr rt)) (MEETING_FOLDER conf)"
        for vals
        using oth tc by (intro substitute_same) simp
      show ?thesis
      proof (cases "local_date l now2 s")
        case (Inl x)
        then show ?thesis
          using ld' by (simp add: format_filename_def tp st tpc tc sc)
      next
        case (Inr ymd)
        then show ?thesis
          using ld' by (cases ymd) (simp add: format_filename_def tp st tpc tc sc Let_def a b
                cong: sum.case_cong)
      qed
    qed (simp_all add: format_filename_def tp st tpc tc)
  qed (simp_all add: format_filename_def tp st tpc)
qed (simp_all add: format_filename_def tp st)

text \<open>
  Claim C8, as stated, fails in both halves. Only the topic is stripped of invalid
  characters: with the default templates and the recording type \<open>audio/only\<close>, the filename
  contains a slash. And the same five inputs do not always give the same pair: the start
  time \<open>05:41:36\<close> names no day, the parser takes the day from the current date, and the
  filename of 15 January differs from that of 16 January.
\<close>

theorem format_filename_invalid_counterexample:
  "format_filename sample_config sample_libs (2024, 1, 15) ''mp4'' (sample_recording ''pending'')
       (JStr ''f1'') (JStr ''audio/only'')
     = Inr (''2021.03.18 - Weekly_Sync - Audio/Only - f1.mp4'', ''Weekly_Sync - 2021.03.18'')
   \<and> invalid_char (CHR ''/'')
   \<and> CHR ''/'' \<in> set ''2021.03.18 - Weekly_Sync - Audio/Only - f1.mp4''
   \<and> format_filename sample_config sample_libs (2024, 1, 15) ''mp4''
       ((sample_recording ''pending'')\<lparr>start_time := JStr ''05:41:36''\<rparr>)
       (JStr ''f1'') (JStr ''shared_screen'')
     = Inr (''2024.01.15 - Weekly_Sync - Shared Screen - f1.mp4'', ''Weekly_Sync - 2024.01.15'')
   \<and> format_filename sample_config sample_libs (2024, 1, 16) ''mp4''
       ((sample_recording ''pending'')\<lparr>start_time := JStr ''05:41:36''\<rparr>)
       (JStr ''f1'') (JStr ''shared_screen'')
     = Inr (''2024.01.16 - Weekly_Sync - Shared Screen - f1.mp4'', ''Weekly_Sync - 2024.01.16'')"
  by (simp add: format_defs sample_defs Let_def)

text \<open>
  Claim C8, amended. Under a fixed configuration, two calls with the same topic, start
  time, file extension, recording type and recording identifier give the same filename and
  folder (or the same exception), whatever the other fields of the recording and the
  current date, provided the date the parser reads from the start time does not depend on
  the current date and the other replacement fields of the templates, if any, are resolved
  alike in the two calls. No invalid character of the topic reaches the output, and the
  output has no invalid character at all when the literal text of the templates, the text
  of their other replacement fields, the file extension, the text of the recording
  identifier and the recording type have none.
\<close>

theorem format_filename_deterministic_clean:
  "(topic r1 = topic r2 \<and> start_time r1 = start_time r2
      \<and> (\<forall>st. start_time r1 = JStr st \<longrightarrow> local_date l now1 st = local_date l now2 st)
      \<and> (\<forall>f. Other f \<in> set (MEETING_FILENAME conf) \<union> set (MEETING_FOLDER conf)
            \<longrightarrow> other_field l now1 f file_ext r1 recording_id recording_type
                = other_field l now2 f file_ext r2 recording_id recording_type)
      \<longrightarrow> format_filename conf l now1 file_ext r1 recording_id recording_type
          = format_filename conf l now2 file_ext r2 recording_id recording_type)
   \<and> (format_filename conf l now1 file_ext r1 recording_id recording_type = Inr (filename, folder)
        \<and> (\<forall>s. Text s \<in> set (MEETING_FILENAME conf) \<union> set (MEETING_FOLDER conf) \<longrightarrow> clean s)
        \<and> (\<forall>f s. Other f \<in> set (MEETING_FILENAME conf) \<union> set (MEETING_FOLDER conf)
              \<longrightarrow> other_field l now1 f file_ext r1 recording_id recording_type = Inr s
              \<longrightarrow> clean s)
        \<and> clean file_ext \<and> clean (py_str l recording_id)
        \<and> (\<forall>rt. recording_type = JStr rt \<longrightarrow> clean rt)
      \<longrightarrow> clean filename \<and> clean folder)"
  using format_filename_same [of r1 r2 l now1 now2 conf file_ext recording_id recording_type]
    format_filename_clean [of conf l now1 file_ext r1 recording_id recording_type filename folder]
  by blast

theorem format_filename_deterministic_clean_witness:
  "format_filename sample_config sample_libs (2024, 1, 15) ''mp4'' (sample_recording ''pending'')
       (JStr ''f1'') (JStr ''shared_screen'')
     = Inr (''2021.03.18 - Weekly_Sync - Shared Screen - f1.mp4'', ''Weekly_Sync - 2021.03.18'')
   \<and> MEETING_FILENAME sample_config = default_MEETING_FILENAME
   \<and> MEETING_FOLDER sample_config = default_MEETING_FOLDER
   \<and> clean '' - '' \<and> clean ''.''
   \<and> clean ''mp4'' \<and> clean (py_str sample_libs (JStr ''f1''))
   \<and> clean ''shared_screen''
   \<and> topic (sample_recording ''pending'') = topic (sample_recording ''downloaded'')
   \<and> start_time (sample_recording ''pending'') = JStr ''2021-03-18T05:41:36Z''
   \<and> start_time (sample_recording ''downloaded'') = JStr ''2021-03-18T05:41:36Z''
   \<and> local_date sample_libs (2024, 1, 15) ''2021-03-18T05:41:36Z''
       = local_date sample_libs (2025, 6, 1) ''2021-03-18T05:41:36Z''
   \<and> format_filename sample_config sample_libs (2024, 1, 15) ''mp4'' (sample_recording ''pending'')
         (JStr ''f1'') (JStr ''shared_screen'')
       = format_filename sample_config sample_libs (2025, 6, 1) ''mp4'' (sample_recording ''downloaded'')
         (JStr ''f1'') (JStr ''shared_screen'')
   \<and> clean ''2021.03.18 - Weekly_Sync - Shared Screen - f1.mp4''
   \<and> clean ''Weekly_Sync - 2021.03.18''"
proof -
  have a: "format_filename sample_config sample_libs (2024, 1, 15) ''mp4'' (sample_recording ''pending'')
       (JStr ''f1'') (JStr ''shared_screen'')
     = Inr (''2021.03.18 - Weekly_Sync - Shared Screen - f1.mp4'', ''Weekly_Sync - 2021.03.18'')"
    by (rule sample_names)
  have b: "\<forall>s. Text s \<in> set (MEETING_FILENAME sample_config) \<union> set (MEETING_FOLDER sample_config)
          \<longrightarrow> clean s"
    by (auto simp: sample_config_def default_MEETING_FILENAME_def default_MEETING_FOLDER_def
          invalid_char_def)
  have o1: "\<forall>f s. Other f \<in> set (MEETING_FILENAME sample_config) \<union> set (MEETING_FOLDER sample_config)
          \<longrightarrow> other_field sample_libs (2024, 1, 15) f ''mp4'' (sample_recording ''pending'')
                (JStr ''f1'') (JStr ''shared_screen'') = Inr s
          \<longrightarrow> clean s"
    by (auto simp: sample_config_def default_MEETING_FILENAME_def default_MEETING_FOLDER_def)
  have o2: "\<forall>f. Other f \<in> set (MEETING_FILENAME sample_config) \<union> set (MEETING_FOLDER sample_config)
          \<longrightarrow> other_field sample_libs (2024, 1, 15) f ''mp4'' (sample_recording ''pending'')
                (JStr ''f1'') (JStr ''shared_screen'')
              = other_field sample_libs (2025, 6, 1) f ''mp4'' (sample_recording ''downloaded'')
                (JStr ''f1'') (JStr ''shared_screen'')"
    by (auto simp: sample_config_def default_MEETING_FILENAME_def default_MEETING_FOLDER_def)
  have c: "clean ''mp4''" "clean (py_str sample_libs (JStr ''f1''))"
    by (simp_all add: py_str_def invalid_char_def)
  have d: "\<forall>rt. JStr ''shared_screen'' = JStr rt \<longrightarrow> clean rt"
    by (simp add: invalid_char_def)
  have e: "topic (sample_recording ''pending'') = topic (sample_recording ''downloaded'')"
    "start_time (sample_recording ''pending'') = start_time (sample_recording ''downloaded'')"
    "start_time (sample_recording ''pending'') = JStr ''2021-03-18T05:41:36Z''"
    "start_time (sample_recording ''downloaded'') = JStr ''2021-03-18T05:41:36Z''"
    by (simp_all add: sample_recording_def)
  have ld: "local_date sample_libs (2024, 1, 15) ''2021-03-18T05:41:36Z''
       = local_date sample_libs (2025, 6, 1) ''2021-03-18T05:41:36Z''"
    by (simp add: sample_libs_def)
  have ld': "\<forall>st. start_time (sample_recording ''pending'') = JStr st
       \<longrightarrow> local_date sample_libs (2024, 1, 15) st = local_date sample_libs (2025, 6, 1) st"
    using ld e(3) by simp
  from format_filename_deterministic_clean
         [of "sample_recording ''pending''" "sample_recording ''downloaded''" sample_libs
             "(2024, 1, 15)" "(2025, 6, 1)" sample_config
             "''mp4''" "JStr ''f1''" "JStr ''shared_screen''"
             "''2021.03.18 - Weekly_Sync - Shared Screen - f1.mp4''" "''Weekly_Sync - 2021.03.18''"]
       a b o1 o2 c d e(1,2) ld'
  have g: "clean ''2021.03.18 - Weekly_Sync - Shared Screen - f1.mp4''"
       "clean ''Weekly_Sync - 2021.03.18''"
       "format_filename sample_config sample_libs (2024, 1, 15) ''mp4'' (sample_recording ''pending'')
         (JStr ''f1'') (JStr ''shared_screen'')
       = format_filename sample_config sample_libs (2025, 6, 1) ''mp4'' (sample_recording ''downloaded'')
         (JStr ''f1'') (JStr ''shared_screen'')"
    by blast+
  have h: "MEETING_FILENAME sample_config = default_MEETING_FILENAME"
    "MEETING_FOLDER sample_config = default_MEETING_FOLDER"
    "clean '' - ''" "clean ''.''" "clean ''shared_screen''"
    by (simp_all add: sample_config_def invalid_char_def)
  from a c e ld g h show ?thesis by simp
qed

section \<open>Properties of the run\<close>

text \<open>
  Claim C4 (fails on the code). The claim: when the provider lists nothing and the ledger
  has an entry, the run rebuilds the recordings from the ledger and goes on; the exit
  status is 1 only when neither source has a recording. The code: the fallback calls
  \<open>ZoomRecording(meeting)\<close> with one argument, which raises \<open>TypeError\<close> at the first ledger
  key, so the run ends there with exit status 1; and when the ledger is empty \<open>main\<close>
  returns 1, a value \<open>asyncio.run(main())\<close> drops, so the exit status is 0. The first
  equation is the whole of \<open>main\<close> with a provider that lists no meeting in any window.
\<close>

theorem fallback_raises_and_exit_codes:
  "main sample_config sample_libs False [''ann@example.com'']
       (\<lambda>email w n. Body [(''meetings'', JArr [])]) (days 738000) (days 738045)
       (\<lambda>r f. sample_fate DownloadCompletes UploadCompletes)
       (Document [(''m1'', to_json (sample_file ''downloaded''))]) {}
     = Some (Raised TypeError, [],
        sample_run (Document [(''m1'', to_json (sample_file ''downloaded''))]) {}
          \<lparr>events := [Printed ''requesting recordings for each user'']\<rparr>)
   \<and> main_from sample_config sample_libs False [''ann@example.com'']
       (\<lambda>r f. sample_fate DownloadCompletes UploadCompletes) []
       (Document [(''m1'', to_json (sample_file ''downloaded''))]) {}
     = (Raised TypeError, [],
        sample_run (Document [(''m1'', to_json (sample_file ''downloaded''))]) {}
          \<lparr>events := [Printed ''requesting recordings for each user'']\<rparr>)
   \<and> exit_code (Raised TypeError) = 1
   \<and> main_from sample_config sample_libs False [''ann@example.com'']
       (\<lambda>r f. sample_fate DownloadCompletes UploadCompletes) [] (Document []) {}
     = (Returned (Some 1), [],
        sample_run (Document []) {} \<lparr>events := [Printed ''requesting recordings for each user'']\<rparr>)
   \<and> exit_code (Returned (Some 1)) = 0"
  by (simp add: main_def list_recordings_def sample_windows max_retries_def numeral_3_eq_3
        main_from_def sample_run_def Let_def)

end
